theory Spec2Isabelle
  imports Main
begin

section \<open>Text as the program sees it\<close>

text \<open>
  A Python \<open>str\<close> is modelled as a \<open>string\<close>: a list of characters, each standing for
  the code point of the same number (0 to 255). Code points above 255 are outside the
  model. Among those 256 code points the only decimal digits are \<open>0\<close> to \<open>9\<close>.
\<close>

definition is_digit :: "char \<Rightarrow> bool" where
  "is_digit c = (let n = (of_char c :: nat) in 48 \<le> n \<and> n \<le> 57)"

definition digit_val :: "char \<Rightarrow> nat" where
  "digit_val c = of_char c - 48"

text \<open>
  \<open>str.strip()\<close> without argument removes the characters for which \<open>str.isspace\<close> holds:
  tab, line feed, vertical tab, form feed, carriage return, the four separators
  0x1C to 0x1F, the blank, and in the upper half 0x85 and 0xA0.
\<close>

definition is_space :: "char \<Rightarrow> bool" where
  "is_space c = (let n = (of_char c :: nat) in
     (9 \<le> n \<and> n \<le> 13) \<or> (28 \<le> n \<and> n \<le> 32) \<or> n = 133 \<or> n = 160)"

definition strip :: "string \<Rightarrow> string" where
  "strip s = rev (dropWhile is_space (rev (dropWhile is_space s)))"

subsection \<open>\<open>int(s)\<close>\<close>

text \<open>
  \<open>int\<close> applied to a \<open>str\<close>, base 10, as CPython's \<open>PyLong_FromString\<close> reads it:
  white space, an optional sign, then digits in which single underscores may stand
  between two digits, then white space up to the end. The white space of \<open>int\<close> is
  narrower than that of \<open>strip\<close>: the separators 0x1C to 0x1F are not skipped.
  \<open>None\<close> stands for \<open>ValueError\<close>.
\<close>

definition int_space :: "char \<Rightarrow> bool" where
  "int_space c = (let n = (of_char c :: nat) in
     (9 \<le> n \<and> n \<le> 13) \<or> n = 32 \<or> n = 133 \<or> n = 160)"

text \<open>
  The scanning loop of \<open>long_from_string_base\<close>: \<open>prev\<close> is the character read last,
  \<open>n\<close> counts the digits (underscores are not counted) and \<open>v\<close> is the value so far.
  It stops at the first character that is neither a digit nor an underscore and fails
  on a doubled or a trailing underscore.
\<close>

fun long_digits :: "char option \<Rightarrow> string \<Rightarrow> nat \<Rightarrow> nat \<Rightarrow> (string \<times> nat \<times> nat) option" where
  "long_digits prev [] n v = (if prev = Some (CHR ''_'') then None else Some ([], n, v))"
| "long_digits prev (c # cs) n v =
     (if c = CHR ''_'' then
        (if prev = Some (CHR ''_'') then None else long_digits (Some c) cs n v)
      else if is_digit c then long_digits (Some c) cs (Suc n) (10 * v + digit_val c)
      else if prev = Some (CHR ''_'') then None
      else Some (c # cs, n, v))"

text \<open>
  \<open>lim\<close> is the interpreter's \<open>int_max_str_digits\<close> (4300 unless configured; 0 switches
  the limit off, as it is in interpreters that have none). A string with more than 640
  digits and more digits than a positive limit is a \<open>ValueError\<close> as well.
\<close>

definition py_int :: "nat \<Rightarrow> string \<Rightarrow> int option" where
  "py_int lim s =
     (let s1 = dropWhile int_space s;
          neg = (case s1 of c # _ \<Rightarrow> c = CHR ''-'' | [] \<Rightarrow> False);
          s2 = (case s1 of c # r \<Rightarrow> if c = CHR ''+'' \<or> c = CHR ''-'' then r else s1 | [] \<Rightarrow> s1)
      in case s2 of
           [] \<Rightarrow> None
         | c # _ \<Rightarrow>
             if c = CHR ''_'' then None
             else (case long_digits None s2 0 0 of
                     None \<Rightarrow> None
                   | Some (rest, n, v) \<Rightarrow>
                       if n = 0 then None
                       else if \<not> list_all int_space rest then None
                       else if 640 < n \<and> 0 < lim \<and> lim < n then None
                       else Some (if neg then - int v else int v)))"

subsection \<open>\<open>datetime.strptime(s, "%Y-%m-%d")\<close>\<close>

text \<open>
  CPython turns the format into the regular expression
  \<^verbatim>\<open>(?P<Y>\d\d\d\d)-(?P<m>1[0-2]|0[1-9]|[1-9])-(?P<d>3[0-1]|[1-2]\d|0[1-9]|[1-9]| [1-9])\<close>,
  matches it at the start of the string, refuses a match that does not reach the end of
  the string, and builds a date from the three numbers, which fails for year 0 and for
  a day the month does not have.
\<close>

definition in_range :: "char \<Rightarrow> char \<Rightarrow> char \<Rightarrow> bool" where
  "in_range lo hi c = ((of_char lo :: nat) \<le> of_char c \<and> (of_char c :: nat) \<le> of_char hi)"

text \<open>\<^verbatim>\<open>\d\d\d\d\<close>: the year and the rest of the string.\<close>

fun match_Y :: "string \<Rightarrow> (nat \<times> string) option" where
  "match_Y (a # b # c # d # rest) =
     (if is_digit a \<and> is_digit b \<and> is_digit c \<and> is_digit d
      then Some (1000 * digit_val a + 100 * digit_val b + 10 * digit_val c + digit_val d, rest)
      else None)"
| "match_Y _ = None"

text \<open>One alternative of two characters, and one of a single character.\<close>

fun alt2 :: "(char \<Rightarrow> bool) \<Rightarrow> (char \<Rightarrow> bool) \<Rightarrow> string \<Rightarrow> (string \<times> string) list" where
  "alt2 p q (a # b # rest) = (if p a \<and> q b then [([a, b], rest)] else [])"
| "alt2 p q _ = []"

fun alt1 :: "(char \<Rightarrow> bool) \<Rightarrow> string \<Rightarrow> (string \<times> string) list" where
  "alt1 p (a # rest) = (if p a then [([a], rest)] else [])"
| "alt1 p _ = []"

text \<open>
  The ways the month group and the day group match at the start of a string, in the
  order in which the regular expression tries them: the matched text and what follows.
\<close>

definition match_m :: "string \<Rightarrow> (string \<times> string) list" where
  "match_m s =
     alt2 (\<lambda>c. c = CHR ''1'') (in_range (CHR ''0'') (CHR ''2'')) s @
     alt2 (\<lambda>c. c = CHR ''0'') (in_range (CHR ''1'') (CHR ''9'')) s @
     alt1 (in_range (CHR ''1'') (CHR ''9'')) s"

definition match_d :: "string \<Rightarrow> (string \<times> string) list" where
  "match_d s =
     alt2 (\<lambda>c. c = CHR ''3'') (in_range (CHR ''0'') (CHR ''1'')) s @
     alt2 (in_range (CHR ''1'') (CHR ''2'')) is_digit s @
     alt2 (\<lambda>c. c = CHR ''0'') (in_range (CHR ''1'') (CHR ''9'')) s @
     alt1 (in_range (CHR ''1'') (CHR ''9'')) s @
     alt2 (\<lambda>c. c = CHR '' '') (in_range (CHR ''1'') (CHR ''9'')) s"

text \<open>\<open>int\<close> of a matched group: one or two characters, a blank counting as nothing.\<close>

fun group_val :: "string \<Rightarrow> nat" where
  "group_val [] = 0"
| "group_val (c # cs) = (if is_digit c then digit_val c * 10 ^ length cs else 0) + group_val cs"

text \<open>
  The literal \<open>-\<close> and the day after a month: the first day alternative that matches
  ends the search, since nothing follows the day in the expression.
\<close>

definition after_m :: "string \<Rightarrow> (string \<times> string) option" where
  "after_m s =
     (case s of
        [] \<Rightarrow> None
      | c # r \<Rightarrow> if c = CHR ''-'' then (case match_d r of [] \<Rightarrow> None | x # _ \<Rightarrow> Some x) else None)"

text \<open>
  Backtracking over the month: the first month alternative after which the rest of the
  expression matches. The result is the month text, the day text and the unread rest.
\<close>

fun first_match :: "(string \<times> string) list \<Rightarrow> (string \<times> string \<times> string) option" where
  "first_match [] = None"
| "first_match ((m, r) # alts) =
     (case after_m r of Some (d, rest) \<Rightarrow> Some (m, d, rest) | None \<Rightarrow> first_match alts)"

definition regex_match :: "string \<Rightarrow> (nat \<times> string \<times> string \<times> string) option" where
  "regex_match s =
     (case match_Y s of
        None \<Rightarrow> None
      | Some (y, r) \<Rightarrow>
          (case r of
             [] \<Rightarrow> None
           | c # r' \<Rightarrow>
               if c = CHR ''-''
               then (case first_match (match_m r') of
                       None \<Rightarrow> None
                     | Some (m, d, rest) \<Rightarrow> Some (y, m, d, rest))
               else None))"

definition is_leap :: "nat \<Rightarrow> bool" where
  "is_leap y = (y mod 4 = 0 \<and> (y mod 100 \<noteq> 0 \<or> y mod 400 = 0))"

definition days_in_month :: "nat \<Rightarrow> nat \<Rightarrow> nat" where
  "days_in_month y m =
     (if m = 2 then (if is_leap y then 29 else 28)
      else if m = 4 \<or> m = 6 \<or> m = 9 \<or> m = 11 then 30
      else 31)"

text \<open>The constructor \<open>datetime.date(y, m, d)\<close>: which triples it accepts.\<close>

definition valid_date :: "nat \<Rightarrow> nat \<Rightarrow> nat \<Rightarrow> bool" where
  "valid_date y m d =
     (1 \<le> y \<and> y \<le> 9999 \<and> 1 \<le> m \<and> m \<le> 12 \<and> 1 \<le> d \<and> d \<le> days_in_month y m)"

text \<open>The whole call; \<open>None\<close> stands for \<open>ValueError\<close>.\<close>

definition strptime :: "string \<Rightarrow> (nat \<times> nat \<times> nat) option" where
  "strptime s =
     (case regex_match s of
        None \<Rightarrow> None
      | Some (y, m, d, rest) \<Rightarrow>
          if rest \<noteq> [] then None
          else if valid_date y (group_val m) (group_val d)
          then Some (y, group_val m, group_val d)
          else None)"

section \<open>The store\<close>

text \<open>
  A row of the table \<open>students\<close>. The enrolment date is kept as the text that was
  submitted: how the store reads that text as a date, and whether it refuses it, is
  not modelled. A statement the store refuses for a reason of its own is an
  \<open>ExecuteFails\<close> entry of the script below.
\<close>

record student =
  student_id :: int
  first_name :: string
  last_name :: string
  email :: string
  enrollment_date :: string

text \<open>
  An exception of class \<open>psycopg2.Error\<close>: whether it is an \<open>errors.UniqueViolation\<close>,
  its attribute \<open>pgerror\<close> (which may be \<open>None\<close>) and its \<open>str\<close>.
\<close>

datatype pg_class = UniqueViolation | OtherPgError

record pg_error =
  err_class :: pg_class
  pgerror :: "string option"
  err_str :: string

text \<open>What the program can raise.\<close>

datatype exn = ValueError | TypeError | EOFError | PgError pg_error

text \<open>
  The four statements of the program with their parameters, and what reaches the
  database driver: the three calls the program writes out, \<open>connect_db()\<close>,
  \<open>cur.execute(...)\<close> and \<open>conn.commit()\<close>, and \<open>ExitCommit\<close>, the commit that the
  driver performs by itself when the \<open>with\<close> block of a connection is left without
  an exception.
\<close>

datatype statement =
    Select
  | Insert string string string string
  | Update string int
  | Delete int

datatype call = Connect | Execute statement | Commit | ExitCommit

text \<open>The string parameters of a statement, and a string that holds the character NUL.\<close>

fun str_params :: "statement \<Rightarrow> string list" where
  "str_params Select = []"
| "str_params (Insert f l e d) = [f, l, e, d]"
| "str_params (Update e sid) = [e]"
| "str_params (Delete sid) = []"

definition has_nul :: "string \<Rightarrow> bool" where
  "has_nul s = (CHR 0x00 \<in> set s)"

text \<open>
  The store is outside the program. What it does beyond the meaning of the four
  statements is given by a script: for each connection the program opens, in order,
  whether connecting fails, the statement fails, the commit fails, or nothing fails.
  An empty script means that nothing fails any more.
\<close>

datatype fault = NoFault | ConnectFails pg_error | ExecuteFails pg_error | CommitFails pg_error

text \<open>
  A cursor after \<open>execute\<close>: \<open>rowcount\<close>, the rows \<open>fetchall\<close> gives, and the first
  column of the row \<open>fetchone\<close> gives (\<open>None\<close> when there is no row).
\<close>

record cursor =
  rowcount :: nat
  fetchall :: "student list"
  fetchone :: "int option"

text \<open>
  A connection: the table as the open transaction sees it, and the script entry that
  was drawn when it was opened.
\<close>

record conn =
  pending :: "student list"
  conn_fault :: fault

text \<open>
  Everything the program acts on: the committed table, the sequence that numbers new
  rows, the script of the store, the interpreter's digit limit for \<open>int\<close>, what has
  reached the driver so far, what has been printed, and the lines still to be read from
  the terminal.
\<close>

datatype message =
    MenuBanner
  | Prompt string
  | NoStudentsFound
  | AllStudents "student list"
  | ErrFetch string
  | ErrInvalidDate
  | StudentAdded int
  | ErrDuplicateEmail
  | ErrAdd string
  | ErrInvalidId
  | NoStudentWithId
  | EmailUpdated
  | ErrUpdate string
  | StudentDeleted
  | ErrDelete string
  | Goodbye
  | InvalidOption
  | ErrStartup string

record world =
  students :: "student list"
  next_id :: int
  script :: "fault list"
  max_str_digits :: nat
  calls :: "call list"
  out :: "message list"
  stdin :: "string list"

definition unique_violation :: pg_error where
  "unique_violation =
     \<lparr>err_class = UniqueViolation,
      pgerror = Some ''duplicate key value violates unique constraint'',
      err_str = ''duplicate key value violates unique constraint''\<rparr>"

text \<open>
  Modelled from the spec: the schema of the table \<open>students\<close>, which is not among the
  sources. \<open>student_id\<close> is generated by the store (\<open>nid\<close> is the next number of its
  sequence) and \<open>email\<close> is unique: an insert or update that would give two rows the
  same email is refused with a uniqueness violation and changes nothing. The function
  gives the table after the statement and the cursor. The result of the query is
  ordered by \<open>student_id\<close>.
\<close>

definition run_statement :: "statement \<Rightarrow> int \<Rightarrow> student list \<Rightarrow> pg_error + student list \<times> cursor" where
  "run_statement st nid tbl =
     (case st of
        Select \<Rightarrow>
          Inr (tbl, \<lparr>rowcount = length tbl, fetchall = sort_key student_id tbl, fetchone = None\<rparr>)
      | Insert f l e d \<Rightarrow>
          if e \<in> set (map email tbl) then Inl unique_violation
          else Inr (tbl @ [\<lparr>student_id = nid, first_name = f, last_name = l, email = e,
                             enrollment_date = d\<rparr>],
                    \<lparr>rowcount = 1, fetchall = [], fetchone = Some nid\<rparr>)
      | Update e sid \<Rightarrow>
          (let hit = filter (\<lambda>r. student_id r = sid) tbl;
               others = filter (\<lambda>r. student_id r \<noteq> sid) tbl
           in if hit \<noteq> [] \<and> (e \<in> set (map email others) \<or> 1 < length hit)
              then Inl unique_violation
              else Inr (map (\<lambda>r. if student_id r = sid then r\<lparr>email := e\<rparr> else r) tbl,
                        \<lparr>rowcount = length hit, fetchall = [], fetchone = None\<rparr>))
      | Delete sid \<Rightarrow>
          Inr (filter (\<lambda>r. student_id r \<noteq> sid) tbl,
               \<lparr>rowcount = length (filter (\<lambda>r. student_id r = sid) tbl), fetchall = [],
                fetchone = None\<rparr>))"

section \<open>The driver calls\<close>

definition print :: "message \<Rightarrow> world \<Rightarrow> world" where
  "print m w = w\<lparr>out := out w @ [m]\<rparr>"

text \<open>\<open>input(prompt)\<close> prints the prompt and reads a line; at the end of the input it raises.\<close>

definition input :: "string \<Rightarrow> world \<Rightarrow> (exn + string) \<times> world" where
  "input prompt w =
     (let w1 = print (Prompt prompt) w
      in case stdin w of
           [] \<Rightarrow> (Inl EOFError, w1)
         | l # ls \<Rightarrow> (Inr l, w1\<lparr>stdin := ls\<rparr>))"

text \<open>\<open>connect_db()\<close> draws the next entry of the script.\<close>

definition connect_db :: "world \<Rightarrow> (exn + conn) \<times> world" where
  "connect_db w =
     (let f = (case script w of [] \<Rightarrow> NoFault | f # _ \<Rightarrow> f);
          w1 = w\<lparr>script := tl (script w), calls := calls w @ [Connect]\<rparr>
      in case f of
           ConnectFails e \<Rightarrow> (Inl (PgError e), w1)
         | _ \<Rightarrow> (Inr \<lparr>pending = students w, conn_fault = f\<rparr>, w1))"

text \<open>
  \<open>cur.execute(...)\<close>. The driver first writes the parameters into the statement, and
  for a string parameter that holds the character NUL it raises the built-in
  \<open>ValueError\<close>; nothing is sent to the store then. The sequence moves on whenever the
  store runs an insert, also one that it then refuses.
\<close>

definition execute :: "statement \<Rightarrow> conn \<Rightarrow> world \<Rightarrow> (exn + conn \<times> cursor) \<times> world" where
  "execute st c w =
     (let w1 = w\<lparr>calls := calls w @ [Execute st]\<rparr>
      in if list_ex has_nul (str_params st) then (Inl ValueError, w1)
         else
           (case conn_fault c of
              ExecuteFails e \<Rightarrow> (Inl (PgError e), w1)
            | _ \<Rightarrow>
                (let w2 = (case st of Insert _ _ _ _ \<Rightarrow> w1\<lparr>next_id := next_id w1 + 1\<rparr>
                                    | _ \<Rightarrow> w1)
                 in case run_statement st (next_id w) (pending c) of
                      Inl e \<Rightarrow> (Inl (PgError e), w2)
                    | Inr (tbl, cur) \<Rightarrow> (Inr (c\<lparr>pending := tbl\<rparr>, cur), w2))))"

text \<open>\<open>conn.commit()\<close> makes the table of the transaction the committed one.\<close>

definition commit :: "conn \<Rightarrow> world \<Rightarrow> (exn + unit) \<times> world" where
  "commit c w =
     (let w1 = w\<lparr>calls := calls w @ [Commit]\<rparr>
      in case conn_fault c of
           CommitFails e \<Rightarrow> (Inl (PgError e), w1)
         | _ \<Rightarrow> (Inr (), w1\<lparr>students := pending c\<rparr>))"

text \<open>
  Leaving \<open>with connect_db() as conn:\<close> without an exception. The driver then commits
  the transaction on its own, which is recorded as \<open>ExitCommit\<close> and can fail as any
  commit can. Leaving the block by an exception rolls the transaction back, which here
  means that \<open>pending\<close> is dropped and the world stays as it is.
\<close>

definition exit_conn :: "conn \<Rightarrow> world \<Rightarrow> (exn + unit) \<times> world" where
  "exit_conn c w =
     (let w1 = w\<lparr>calls := calls w @ [ExitCommit]\<rparr>
      in case conn_fault c of
           CommitFails e \<Rightarrow> (Inl (PgError e), w1)
         | _ \<Rightarrow> (Inr (), w1\<lparr>students := pending c\<rparr>))"

text \<open>\<open>e.pgerror or e\<close>, as the message shows it.\<close>

definition diag :: "pg_error \<Rightarrow> string" where
  "diag e = (case pgerror e of None \<Rightarrow> err_str e | Some s \<Rightarrow> if s = [] then err_str e else s)"

section \<open>The operations\<close>

text \<open>
  Each operation gives the world after the call and either \<open>Inr ()\<close>, when it returns,
  or \<open>Inl x\<close>, when the exception \<open>x\<close> leaves it. The functions named \<open>_try\<close> are the
  bodies of the \<open>try\<close> blocks; the handlers follow in the operation itself, in the
  order of the \<open>except\<close> clauses.
\<close>

definition getAllStudents_try :: "world \<Rightarrow> (exn + unit) \<times> world" where
  "getAllStudents_try w =
     (case connect_db w of
        (Inl x, w1) \<Rightarrow> (Inl x, w1)
      | (Inr conn, w1) \<Rightarrow>
          (case execute Select conn w1 of
             (Inl x, w2) \<Rightarrow> (Inl x, w2)
           | (Inr (conn2, cur), w2) \<Rightarrow>
               (let rows = fetchall cur
                in if rows = [] then exit_conn conn2 (print NoStudentsFound w2)
                   else exit_conn conn2 (print (AllStudents rows) w2))))"

definition getAllStudents :: "world \<Rightarrow> (exn + unit) \<times> world" where
  "getAllStudents w =
     (case getAllStudents_try w of
        (Inl x, w1) \<Rightarrow>
          (case x of
             PgError e \<Rightarrow> (Inr (), print (ErrFetch (diag e)) w1)
           | _ \<Rightarrow> (Inl x, w1))
      | (Inr u, w1) \<Rightarrow> (Inr u, w1))"

definition addStudent_try :: "string \<Rightarrow> string \<Rightarrow> string \<Rightarrow> string \<Rightarrow> world \<Rightarrow> (exn + unit) \<times> world" where
  "addStudent_try first last' email' date_str w =
     (case connect_db w of
        (Inl x, w1) \<Rightarrow> (Inl x, w1)
      | (Inr conn, w1) \<Rightarrow>
          (case execute (Insert first last' email' date_str) conn w1 of
             (Inl x, w2) \<Rightarrow> (Inl x, w2)
           | (Inr (conn2, cur), w2) \<Rightarrow>
               (case fetchone cur of
                  None \<Rightarrow> (Inl TypeError, w2)
                | Some new_id \<Rightarrow>
                    (case commit conn2 w2 of
                       (Inl x, w3) \<Rightarrow> (Inl x, w3)
                     | (Inr _, w3) \<Rightarrow> exit_conn conn2 (print (StudentAdded new_id) w3)))))"

definition addStudent :: "string \<Rightarrow> string \<Rightarrow> string \<Rightarrow> string \<Rightarrow> world \<Rightarrow> (exn + unit) \<times> world" where
  "addStudent first last' email' date_str w =
     (case strptime date_str of
        None \<Rightarrow> (Inr (), print ErrInvalidDate w)
      | Some _ \<Rightarrow>
          (case addStudent_try first last' email' date_str w of
             (Inl x, w1) \<Rightarrow>
               (case x of
                  PgError e \<Rightarrow>
                    if err_class e = UniqueViolation then (Inr (), print ErrDuplicateEmail w1)
                    else (Inr (), print (ErrAdd (diag e)) w1)
                | _ \<Rightarrow> (Inl x, w1))
           | (Inr u, w1) \<Rightarrow> (Inr u, w1)))"

definition updateStudentEmail_try :: "int \<Rightarrow> string \<Rightarrow> world \<Rightarrow> (exn + unit) \<times> world" where
  "updateStudentEmail_try sid new_email w =
     (case connect_db w of
        (Inl x, w1) \<Rightarrow> (Inl x, w1)
      | (Inr conn, w1) \<Rightarrow>
          (case execute (Update new_email sid) conn w1 of
             (Inl x, w2) \<Rightarrow> (Inl x, w2)
           | (Inr (conn2, cur), w2) \<Rightarrow>
               if rowcount cur = 0 then exit_conn conn2 (print NoStudentWithId w2)
               else (case commit conn2 w2 of
                       (Inl x, w3) \<Rightarrow> (Inl x, w3)
                     | (Inr _, w3) \<Rightarrow> exit_conn conn2 (print EmailUpdated w3))))"

definition updateStudentEmail :: "string \<Rightarrow> string \<Rightarrow> world \<Rightarrow> (exn + unit) \<times> world" where
  "updateStudentEmail student_id' new_email w =
     (case py_int (max_str_digits w) student_id' of
        None \<Rightarrow> (Inr (), print ErrInvalidId w)
      | Some sid \<Rightarrow>
          (case updateStudentEmail_try sid new_email w of
             (Inl x, w1) \<Rightarrow>
               (case x of
                  PgError e \<Rightarrow>
                    if err_class e = UniqueViolation then (Inr (), print ErrDuplicateEmail w1)
                    else (Inr (), print (ErrUpdate (diag e)) w1)
                | _ \<Rightarrow> (Inl x, w1))
           | (Inr u, w1) \<Rightarrow> (Inr u, w1)))"

definition deleteStudent_try :: "int \<Rightarrow> world \<Rightarrow> (exn + unit) \<times> world" where
  "deleteStudent_try sid w =
     (case connect_db w of
        (Inl x, w1) \<Rightarrow> (Inl x, w1)
      | (Inr conn, w1) \<Rightarrow>
          (case execute (Delete sid) conn w1 of
             (Inl x, w2) \<Rightarrow> (Inl x, w2)
           | (Inr (conn2, cur), w2) \<Rightarrow>
               if rowcount cur = 0 then exit_conn conn2 (print NoStudentWithId w2)
               else (case commit conn2 w2 of
                       (Inl x, w3) \<Rightarrow> (Inl x, w3)
                     | (Inr _, w3) \<Rightarrow> exit_conn conn2 (print StudentDeleted w3))))"

definition deleteStudent :: "string \<Rightarrow> world \<Rightarrow> (exn + unit) \<times> world" where
  "deleteStudent student_id' w =
     (case py_int (max_str_digits w) student_id' of
        None \<Rightarrow> (Inr (), print ErrInvalidId w)
      | Some sid \<Rightarrow>
          (case deleteStudent_try sid w of
             (Inl x, w1) \<Rightarrow>
               (case x of
                  PgError e \<Rightarrow> (Inr (), print (ErrDelete (diag e)) w1)
                | _ \<Rightarrow> (Inl x, w1))
           | (Inr u, w1) \<Rightarrow> (Inr u, w1)))"

section \<open>The menu\<close>

text \<open>
  Where the loop stands after one round: at its head again, waiting for a choice, or
  left through \<open>break\<close>.
\<close>

datatype menu_state = AwaitingChoice | Exited

text \<open>After a call the loop goes round again, unless the call raised.\<close>

definition then_loop :: "(exn + unit) \<times> world \<Rightarrow> (exn + menu_state) \<times> world" where
  "then_loop r = (case r of (Inl x, w) \<Rightarrow> (Inl x, w) | (Inr _, w) \<Rightarrow> (Inr AwaitingChoice, w))"

text \<open>One round of \<open>while True\<close>.\<close>

definition menu_body :: "world \<Rightarrow> (exn + menu_state) \<times> world" where
  "menu_body w =
     (case input ''Choose an option: '' (print MenuBanner w) of
        (Inl x, w1) \<Rightarrow> (Inl x, w1)
      | (Inr line, w1) \<Rightarrow>
          (let choice = strip line
           in if choice = ''1'' then then_loop (getAllStudents w1)
              else if choice = ''2'' then
                (case input ''First name: '' w1 of
                   (Inl x, w2) \<Rightarrow> (Inl x, w2)
                 | (Inr l1, w2) \<Rightarrow>
                (case input ''Last name: '' w2 of
                   (Inl x, w3) \<Rightarrow> (Inl x, w3)
                 | (Inr l2, w3) \<Rightarrow>
                (case input ''Email: '' w3 of
                   (Inl x, w4) \<Rightarrow> (Inl x, w4)
                 | (Inr l3, w4) \<Rightarrow>
                (case input ''Enrollment date (YYYY-MM-DD): '' w4 of
                   (Inl x, w5) \<Rightarrow> (Inl x, w5)
                 | (Inr l4, w5) \<Rightarrow>
                     then_loop (addStudent (strip l1) (strip l2) (strip l3) (strip l4) w5)))))
              else if choice = ''3'' then
                (case input ''Student ID: '' w1 of
                   (Inl x, w2) \<Rightarrow> (Inl x, w2)
                 | (Inr l1, w2) \<Rightarrow>
                (case input ''New email: '' w2 of
                   (Inl x, w3) \<Rightarrow> (Inl x, w3)
                 | (Inr l2, w3) \<Rightarrow>
                     then_loop (updateStudentEmail (strip l1) (strip l2) w3)))
              else if choice = ''4'' then
                (case input ''Student ID to delete: '' w1 of
                   (Inl x, w2) \<Rightarrow> (Inl x, w2)
                 | (Inr l1, w2) \<Rightarrow> then_loop (deleteStudent (strip l1) w2))
              else if choice = ''0'' then (Inr Exited, print Goodbye w1)
              else (Inr AwaitingChoice, print InvalidOption w1)))"

text \<open>
  The loop ends: no call touches the lines still to be read, and a round that comes
  back to the head of the loop has read at least the choice.
\<close>

lemma stdin_print [simp]: "stdin (print m w) = stdin w"
  by (simp add: print_def)

lemma stdin_connect_db: "connect_db w = (r, w') \<Longrightarrow> stdin w' = stdin w"
  by (auto simp: connect_db_def Let_def split: fault.splits)

lemma stdin_execute: "execute st c w = (r, w') \<Longrightarrow> stdin w' = stdin w"
  by (auto simp: execute_def Let_def split: fault.splits statement.splits sum.splits if_splits)

lemma stdin_commit: "commit c w = (r, w') \<Longrightarrow> stdin w' = stdin w"
  by (auto simp: commit_def Let_def split: fault.splits)

lemma stdin_exit_conn: "exit_conn c w = (r, w') \<Longrightarrow> stdin w' = stdin w"
  by (auto simp: exit_conn_def Let_def split: fault.splits)

lemma stdin_getAllStudents_try: "getAllStudents_try w = (r, w') \<Longrightarrow> stdin w' = stdin w"
  by (auto simp: getAllStudents_try_def Let_def split: prod.splits sum.splits if_splits
      dest!: stdin_connect_db stdin_execute stdin_exit_conn)

lemma stdin_getAllStudents: "getAllStudents w = (r, w') \<Longrightarrow> stdin w' = stdin w"
  by (auto simp: getAllStudents_def split: prod.splits sum.splits exn.splits
      dest!: stdin_getAllStudents_try)

lemma stdin_addStudent_try: "addStudent_try a b c d w = (r, w') \<Longrightarrow> stdin w' = stdin w"
  by (auto simp: addStudent_try_def split: prod.splits sum.splits option.splits
      dest!: stdin_connect_db stdin_execute stdin_exit_conn stdin_commit)

lemma stdin_addStudent: "addStudent a b c d w = (r, w') \<Longrightarrow> stdin w' = stdin w"
  by (auto simp: addStudent_def split: prod.splits sum.splits exn.splits option.splits if_splits
      dest!: stdin_addStudent_try)

lemma stdin_updateStudentEmail_try:
  "updateStudentEmail_try a b w = (r, w') \<Longrightarrow> stdin w' = stdin w"
  by (auto simp: updateStudentEmail_try_def split: prod.splits sum.splits if_splits
      dest!: stdin_connect_db stdin_execute stdin_exit_conn stdin_commit)

lemma stdin_updateStudentEmail: "updateStudentEmail a b w = (r, w') \<Longrightarrow> stdin w' = stdin w"
  by (auto simp: updateStudentEmail_def
      split: prod.splits sum.splits exn.splits option.splits if_splits
      dest!: stdin_updateStudentEmail_try)

lemma stdin_deleteStudent_try: "deleteStudent_try a w = (r, w') \<Longrightarrow> stdin w' = stdin w"
  by (auto simp: deleteStudent_try_def split: prod.splits sum.splits if_splits
      dest!: stdin_connect_db stdin_execute stdin_exit_conn stdin_commit)

lemma stdin_deleteStudent: "deleteStudent a w = (r, w') \<Longrightarrow> stdin w' = stdin w"
  by (auto simp: deleteStudent_def split: prod.splits sum.splits exn.splits option.splits if_splits
      dest!: stdin_deleteStudent_try)

lemma menu_body_consumes:
  "menu_body w = (Inr AwaitingChoice, w') \<Longrightarrow> length (stdin w') < length (stdin w)"
  by (cases "stdin w")
    (auto simp: menu_body_def input_def Let_def print_def then_loop_def
      split: list.splits if_splits prod.splits sum.splits
      dest!: stdin_getAllStudents stdin_addStudent stdin_updateStudentEmail stdin_deleteStudent)

text \<open>\<open>menu()\<close>: the rounds, until \<open>break\<close> or an exception.\<close>

function menu :: "world \<Rightarrow> (exn + unit) \<times> world" where
  "menu w =
     (case menu_body w of
        (Inl x, w1) \<Rightarrow> (Inl x, w1)
      | (Inr st, w1) \<Rightarrow>
          (case st of
             Exited \<Rightarrow> (Inr (), w1)
           | AwaitingChoice \<Rightarrow> menu w1))"
  by pat_completeness auto
termination
  by (relation "measure (\<lambda>w. length (stdin w))") (auto dest: menu_body_consumes [OF sym])

declare menu.simps [simp del]

text \<open>
  The block under \<open>if __name__ == "__main__"\<close>: a connection is opened and the block
  left at once; \<open>menu()\<close> is the \<open>else\<close> branch of the \<open>try\<close>, so what it raises is not
  handled here.
\<close>

definition main :: "world \<Rightarrow> (exn + unit) \<times> world" where
  "main w =
     (case (case connect_db w of
              (Inl x, w1) \<Rightarrow> (Inl x, w1)
            | (Inr conn, w1) \<Rightarrow> exit_conn conn w1) of
        (Inl x, w2) \<Rightarrow>
          (case x of
             PgError e \<Rightarrow> (Inr (), print (ErrStartup (diag e)) w2)
           | _ \<Rightarrow> (Inl x, w2))
      | (Inr _, w2) \<Rightarrow> menu w2)"

section \<open>Sample data\<close>

definition ada :: student where
  "ada = \<lparr>student_id = 1, first_name = ''Ada'', last_name = ''Lovelace'',
           email = ''ada@x.com'', enrollment_date = ''1843-12-10''\<rparr>"

definition bob :: student where
  "bob = \<lparr>student_id = 2, first_name = ''Bob'', last_name = ''Byte'',
           email = ''bob@x.com'', enrollment_date = ''2023-09-01''\<rparr>"

definition down :: pg_error where
  "down = \<lparr>err_class = OtherPgError, pgerror = None, err_str = ''connection refused''\<rparr>"

text \<open>A fresh run: a table, a script for the store, and the lines the operator types.\<close>

definition start :: "student list \<Rightarrow> fault list \<Rightarrow> string list \<Rightarrow> world" where
  "start tbl fs ls =
     \<lparr>students = tbl, next_id = 3, script = fs, max_str_digits = 4300, calls = [], out = [],
      stdin = ls\<rparr>"

lemmas run_defs =
  main_def menu_body_def input_def print_def then_loop_def connect_db_def execute_def
  commit_def exit_conn_def run_statement_def getAllStudents_def getAllStudents_try_def
  addStudent_def addStudent_try_def updateStudentEmail_def updateStudentEmail_try_def
  deleteStudent_def deleteStudent_try_def strip_def is_space_def py_int_def int_space_def
  is_digit_def digit_val_def strptime_def regex_match_def match_m_def match_d_def after_m_def
  in_range_def valid_date_def days_in_month_def is_leap_def diag_def unique_violation_def
  has_nul_def start_def ada_def bob_def down_def Let_def

section \<open>Notions used in the statements\<close>

text \<open>The store runs the next statement: nothing fails at the next connection.\<close>

definition store_ok :: "world \<Rightarrow> bool" where
  "store_ok w = (case script w of [] \<Rightarrow> True | f # _ \<Rightarrow> f = NoFault)"

text \<open>The number a string of digits denotes.\<close>

definition decimal :: "string \<Rightarrow> nat" where
  "decimal s = foldl (\<lambda>v c. 10 * v + digit_val c) 0 s"

text \<open>
  A string that strictly has the shape \<open>YYYY-MM-DD\<close>, ten characters with digits
  around the two hyphens, and denotes a real calendar date.
\<close>

definition strict_date :: "string \<Rightarrow> bool" where
  "strict_date s =
     (length s = 10 \<and> s ! 4 = CHR ''-'' \<and> s ! 7 = CHR ''-'' \<and>
      list_all is_digit (take 4 s) \<and> list_all is_digit (take 2 (drop 5 s)) \<and>
      list_all is_digit (drop 8 s) \<and>
      valid_date (group_val (take 4 s)) (group_val (take 2 (drop 5 s))) (group_val (drop 8 s)))"

section \<open>What each driver call leaves behind\<close>

lemma calls_print [simp]: "calls (print m w) = calls w"
  by (simp add: print_def)

lemma calls_connect_db: "connect_db w = (r, w') \<Longrightarrow> calls w' = calls w @ [Connect]"
  by (auto simp: connect_db_def Let_def split: fault.splits)

lemma calls_execute: "execute st c w = (r, w') \<Longrightarrow> calls w' = calls w @ [Execute st]"
  by (auto simp: execute_def Let_def split: fault.splits statement.splits sum.splits if_splits)

lemma calls_commit: "commit c w = (r, w') \<Longrightarrow> calls w' = calls w @ [Commit]"
  by (auto simp: commit_def Let_def split: fault.splits)

lemma calls_exit_conn: "exit_conn c w = (r, w') \<Longrightarrow> calls w' = calls w @ [ExitCommit]"
  by (auto simp: exit_conn_def Let_def split: fault.splits)

lemma calls_updateStudentEmail_try:
  "updateStudentEmail_try sid e w = (r, w') \<Longrightarrow> \<exists>cs. calls w' = calls w @ Connect # cs"
  by (auto simp: updateStudentEmail_try_def split: prod.splits sum.splits if_splits
      dest!: calls_connect_db calls_execute calls_commit calls_exit_conn)

lemma calls_deleteStudent_try:
  "deleteStudent_try sid w = (r, w') \<Longrightarrow> \<exists>cs. calls w' = calls w @ Connect # cs"
  by (auto simp: deleteStudent_try_def split: prod.splits sum.splits if_splits
      dest!: calls_connect_db calls_execute calls_commit calls_exit_conn)

lemma calls_updateStudentEmail:
  "py_int (max_str_digits w) s = Some sid \<Longrightarrow>
   \<exists>cs. calls (snd (updateStudentEmail s e w)) = calls w @ Connect # cs"
  by (auto simp: updateStudentEmail_def split: prod.splits sum.splits exn.splits
      dest!: calls_updateStudentEmail_try)

lemma calls_deleteStudent:
  "py_int (max_str_digits w) s = Some sid \<Longrightarrow>
   \<exists>cs. calls (snd (deleteStudent s w)) = calls w @ Connect # cs"
  by (auto simp: deleteStudent_def split: prod.splits sum.splits exn.splits
      dest!: calls_deleteStudent_try)

section \<open>Parsing the identifier\<close>

lemmas int_defs = py_int_def int_space_def is_digit_def digit_val_def

lemma py_int_42: "py_int lim ''42'' = Some 42"
  by (simp add: int_defs)

text \<open>
  C4. In \<open>updateStudentEmail\<close> and in \<open>deleteStudent\<close> the identifier is converted with
  \<open>int\<close> before anything else happens. When the conversion fails, the operation prints
  the invalid-identifier message and returns: the world differs from the one before
  only by that message, so no connection was opened and no statement was run. The
  conversion fails for \<open>abc\<close>, \<open>3.5\<close> and the empty string; it gives 42 for \<open>42\<close>, and
  the operation then goes on to open a connection.
\<close>

theorem invalid_id_no_store_contact:
  "(py_int (max_str_digits w) s = None \<longrightarrow>
      updateStudentEmail s new_email w = (Inr (), w\<lparr>out := out w @ [ErrInvalidId]\<rparr>) \<and>
      deleteStudent s w = (Inr (), w\<lparr>out := out w @ [ErrInvalidId]\<rparr>)) \<and>
   py_int (max_str_digits w) ''abc'' = None \<and>
   py_int (max_str_digits w) ''3.5'' = None \<and>
   py_int (max_str_digits w) '''' = None \<and>
   py_int (max_str_digits w) ''42'' = Some 42 \<and>
   (\<exists>cs. calls (snd (updateStudentEmail ''42'' new_email w)) = calls w @ Connect # cs) \<and>
   (\<exists>cs. calls (snd (deleteStudent ''42'' w)) = calls w @ Connect # cs)"
proof -
  have "py_int (max_str_digits w) s = None \<Longrightarrow>
      updateStudentEmail s new_email w = (Inr (), w\<lparr>out := out w @ [ErrInvalidId]\<rparr>)"
    by (simp add: updateStudentEmail_def print_def)
  moreover have "py_int (max_str_digits w) s = None \<Longrightarrow>
      deleteStudent s w = (Inr (), w\<lparr>out := out w @ [ErrInvalidId]\<rparr>)"
    by (simp add: deleteStudent_def print_def)
  moreover have "py_int (max_str_digits w) ''abc'' = None"
    "py_int (max_str_digits w) ''3.5'' = None" "py_int (max_str_digits w) '''' = None"
    by (simp_all add: int_defs)
  ultimately show ?thesis
    using py_int_42 calls_updateStudentEmail [OF py_int_42] calls_deleteStudent [OF py_int_42]
    by blast
qed

theorem invalid_id_no_store_contact_witness:
  "py_int 4300 ''3.5'' = None \<and>
   updateStudentEmail ''3.5'' ''a@x.com'' (start [ada] [] []) =
     (Inr (), (start [ada] [] [])\<lparr>out := [ErrInvalidId]\<rparr>) \<and>
   deleteStudent ''3.5'' (start [ada] [] []) =
     (Inr (), (start [ada] [] [])\<lparr>out := [ErrInvalidId]\<rparr>)"
proof -
  have h: "py_int (max_str_digits (start [ada] [] [])) ''3.5'' = None"
    by (simp add: start_def int_defs)
  have o: "out (start [ada] [] []) = []" and m: "max_str_digits (start [ada] [] []) = 4300"
    by (simp_all add: start_def)
  show ?thesis
    using invalid_id_no_store_contact [of "start [ada] [] []" "''3.5''" "''a@x.com''"] h
    by (simp add: o m)
qed

section \<open>The operations, path by path\<close>

lemmas op_defs =
  connect_db_def execute_def commit_def exit_conn_def print_def run_statement_def Let_def

lemma filter_none:
  "sid \<notin> student_id ` set tbl \<Longrightarrow> filter (\<lambda>r. student_id r = sid) tbl = []"
  by (induction tbl) auto

lemma filter_all:
  "sid \<notin> student_id ` set tbl \<Longrightarrow> filter (\<lambda>r. student_id r \<noteq> sid) tbl = tbl"
  by (induction tbl) auto

lemma map_same:
  "sid \<notin> student_id ` set tbl \<Longrightarrow>
   map (\<lambda>r. if student_id r = sid then r\<lparr>email := e\<rparr> else r) tbl = tbl"
  by (induction tbl) auto

lemma length_one: "xs \<noteq> [] \<Longrightarrow> \<not> Suc 0 < length xs \<Longrightarrow> length xs = Suc 0"
  by (cases xs) auto

lemma update_not_found:
  assumes "sid \<notin> student_id ` set (students w)" and "store_ok w" and "\<not> has_nul e"
  shows "updateStudentEmail_try sid e w =
     (Inr (), w\<lparr>script := tl (script w),
               calls := calls w @ [Connect, Execute (Update e sid), ExitCommit],
               out := out w @ [NoStudentWithId]\<rparr>)"
  using assms
  by (auto simp: updateStudentEmail_try_def store_ok_def op_defs filter_none map_same
      split: list.splits)

lemma update_not_found_commit_fails:
  assumes "sid \<notin> student_id ` set (students w)" and "script w = CommitFails err # fs"
    and "\<not> has_nul e"
  shows "updateStudentEmail_try sid e w =
     (Inl (PgError err),
      w\<lparr>script := fs, calls := calls w @ [Connect, Execute (Update e sid), ExitCommit],
        out := out w @ [NoStudentWithId]\<rparr>)"
  using assms
  by (auto simp: updateStudentEmail_try_def op_defs filter_none map_same)

lemma delete_not_found:
  assumes "sid \<notin> student_id ` set (students w)" and "store_ok w"
  shows "deleteStudent_try sid w =
     (Inr (), w\<lparr>script := tl (script w),
               calls := calls w @ [Connect, Execute (Delete sid), ExitCommit],
               out := out w @ [NoStudentWithId]\<rparr>)"
  using assms
  by (auto simp: deleteStudent_try_def store_ok_def op_defs filter_none filter_all
      split: list.splits)

lemma delete_not_found_commit_fails:
  assumes "sid \<notin> student_id ` set (students w)" and "script w = CommitFails err # fs"
  shows "deleteStudent_try sid w =
     (Inl (PgError err),
      w\<lparr>script := fs, calls := calls w @ [Connect, Execute (Delete sid), ExitCommit],
        out := out w @ [NoStudentWithId]\<rparr>)"
  using assms
  by (auto simp: deleteStudent_try_def op_defs filter_none filter_all)

lemma delete_found:
  assumes "sid \<in> student_id ` set (students w)" and "store_ok w"
  shows "deleteStudent_try sid w =
     (Inr (), w\<lparr>students := filter (\<lambda>r. student_id r \<noteq> sid) (students w),
               script := tl (script w),
               calls := calls w @ [Connect, Execute (Delete sid), Commit, ExitCommit],
               out := out w @ [StudentDeleted]\<rparr>)"
proof -
  from assms(1) have "filter (\<lambda>r. student_id r = sid) (students w) \<noteq> []"
    by (auto simp: filter_empty_conv)
  with assms(2) show ?thesis
    by (auto simp: deleteStudent_try_def store_ok_def op_defs split: list.splits)
qed

lemma update_success:
  assumes "updateStudentEmail_try sid e w = (r, w')" and "out w' = out w @ [EmailUpdated]"
  shows "students w' = map (\<lambda>r. if student_id r = sid then r\<lparr>email := e\<rparr> else r) (students w)
     \<and> length (filter (\<lambda>r. student_id r = sid) (students w)) = 1"
  using assms
  by (auto simp: updateStudentEmail_try_def op_defs intro: length_one
      split: list.splits fault.splits if_splits)

lemma update_try_out:
  assumes "updateStudentEmail_try sid e w = (Inl x, w')"
  shows "out w' = out w \<or> out w' = out w @ [NoStudentWithId]"
  using assms
  by (auto simp: updateStudentEmail_try_def op_defs
      split: list.splits fault.splits if_splits)

lemma add_try_students:
  assumes "addStudent_try f l e d w = (r, w')"
  shows "(\<exists>n. r = Inr () \<and> out w' = out w @ [StudentAdded n] \<and>
            students w' = students w @ [\<lparr>student_id = n, first_name = f, last_name = l,
                                           email = e, enrollment_date = d\<rparr>]) \<or>
         ((\<exists>x. r = Inl x) \<and> out w' = out w \<and> students w' = students w)"
  using assms
  by (auto simp: addStudent_try_def op_defs split: list.splits fault.splits if_splits)

lemma getAll_try_raises:
  "getAllStudents_try w = (Inl x, w') \<Longrightarrow> \<exists>err. x = PgError err"
  by (auto simp: getAllStudents_try_def op_defs split: list.splits fault.splits if_splits)

lemma delete_try_raises:
  "deleteStudent_try sid w = (Inl x, w') \<Longrightarrow> \<exists>err. x = PgError err"
  by (auto simp: deleteStudent_try_def op_defs split: list.splits fault.splits if_splits)

lemma update_try_raises:
  "updateStudentEmail_try sid e w = (Inl x, w') \<Longrightarrow>
   (\<exists>err. x = PgError err) \<or> (x = ValueError \<and> has_nul e)"
  by (auto simp: updateStudentEmail_try_def op_defs split: list.splits fault.splits if_splits)

lemma add_try_raises:
  "addStudent_try f l e d w = (Inl x, w') \<Longrightarrow>
   (\<exists>err. x = PgError err) \<or> (x = ValueError \<and> list_ex has_nul [f, l, e, d])"
  by (auto simp: addStudent_try_def op_defs split: list.splits fault.splits if_splits)

lemma getAllStudents_returns: "fst (getAllStudents w) = Inr ()"
  by (auto simp: getAllStudents_def split: prod.splits sum.splits exn.splits
      dest: getAll_try_raises)

lemma deleteStudent_returns: "fst (deleteStudent s w) = Inr ()"
  by (auto simp: deleteStudent_def split: prod.splits sum.splits exn.splits option.splits
      dest: delete_try_raises)

section \<open>Identifiers that match no row\<close>

text \<open>
  C1, as stated, fails: on the path of an identifier that matches no row a commit does
  take place. The operation does not call \<open>conn.commit()\<close>, but the \<open>with\<close> block of
  the connection is left without an exception and the driver commits then. With a
  store that works, the commit is among what reached the driver; with a store whose
  commit fails, it shows in a second message after the not-found one.
\<close>

theorem not_found_commit_counterexample:
  "updateStudentEmail ''7'' ''new@x.com'' (start [ada, bob] [] []) =
     (Inr (),
      (start [ada, bob] [] [])\<lparr>calls := [Connect, Execute (Update ''new@x.com'' 7), ExitCommit],
         out := [NoStudentWithId]\<rparr>) \<and>
   deleteStudent ''7'' (start [ada, bob] [CommitFails down] []) =
     (Inr (),
      (start [ada, bob] [] [])\<lparr>calls := [Connect, Execute (Delete 7), ExitCommit],
         out := [NoStudentWithId, ErrDelete ''connection refused'']\<rparr>)"
  by (simp add: run_defs)

text \<open>
  C1, amended. Let the identifier convert to the integer \<open>sid\<close>, let no row have
  \<open>student_id = sid\<close>, and let the statement reach the store and be run (for the update
  this means a new email without the character NUL). Then \<open>updateStudentEmail\<close> and
  \<open>deleteStudent\<close> print the no-student-found message and return. They call
  \<open>connect_db\<close> and \<open>execute\<close> and never \<open>conn.commit()\<close>; the one commit is the
  driver's, at the exit of the block, of a transaction that changed nothing. The world
  differs from the one before only by the consumed script entry, what reached the
  driver and what was printed, so every row is as it was. If the driver's commit
  fails, the operation prints the message for that store error after the not-found
  message, and the rows are as they were all the same. If a row has the identifier,
  a first \<open>deleteStudent\<close> prints the success message and a second one, the store
  working again, prints the no-student-found message and leaves the table as the
  first one left it.
\<close>

theorem not_found_leaves_rows:
  assumes "py_int (max_str_digits w) s = Some sid"
  shows "(sid \<notin> student_id ` set (students w) \<and> store_ok w \<and> \<not> has_nul new_email \<longrightarrow>
            updateStudentEmail s new_email w =
              (Inr (), w\<lparr>script := tl (script w),
                         calls := calls w @ [Connect, Execute (Update new_email sid), ExitCommit],
                         out := out w @ [NoStudentWithId]\<rparr>)) \<and>
         (sid \<notin> student_id ` set (students w) \<and> store_ok w \<longrightarrow>
            deleteStudent s w =
              (Inr (), w\<lparr>script := tl (script w),
                         calls := calls w @ [Connect, Execute (Delete sid), ExitCommit],
                         out := out w @ [NoStudentWithId]\<rparr>)) \<and>
         (sid \<notin> student_id ` set (students w) \<and> script w = CommitFails err # fs \<and>
          \<not> has_nul new_email \<longrightarrow>
            updateStudentEmail s new_email w =
              (Inr (), w\<lparr>script := fs,
                         calls := calls w @ [Connect, Execute (Update new_email sid), ExitCommit],
                         out := out w @ [NoStudentWithId,
                                         if err_class err = UniqueViolation then ErrDuplicateEmail
                                         else ErrUpdate (diag err)]\<rparr>)) \<and>
         (sid \<notin> student_id ` set (students w) \<and> script w = CommitFails err # fs \<longrightarrow>
            deleteStudent s w =
              (Inr (), w\<lparr>script := fs,
                         calls := calls w @ [Connect, Execute (Delete sid), ExitCommit],
                         out := out w @ [NoStudentWithId, ErrDelete (diag err)]\<rparr>)) \<and>
         (sid \<in> student_id ` set (students w) \<and> store_ok w \<and>
          store_ok (w\<lparr>script := tl (script w)\<rparr>) \<longrightarrow>
            (let w1 = snd (deleteStudent s w); w2 = snd (deleteStudent s w1)
             in out w1 = out w @ [StudentDeleted] \<and>
                out w2 = out w1 @ [NoStudentWithId] \<and>
                calls w2 = calls w1 @ [Connect, Execute (Delete sid), ExitCommit] \<and>
                students w2 = students w1))"
proof (intro conjI impI)
  assume "sid \<notin> student_id ` set (students w) \<and> store_ok w \<and> \<not> has_nul new_email"
  then show "updateStudentEmail s new_email w =
      (Inr (), w\<lparr>script := tl (script w),
                 calls := calls w @ [Connect, Execute (Update new_email sid), ExitCommit],
                 out := out w @ [NoStudentWithId]\<rparr>)"
    using assms by (simp add: updateStudentEmail_def update_not_found)
next
  assume "sid \<notin> student_id ` set (students w) \<and> store_ok w"
  then show "deleteStudent s w =
      (Inr (), w\<lparr>script := tl (script w),
                 calls := calls w @ [Connect, Execute (Delete sid), ExitCommit],
                 out := out w @ [NoStudentWithId]\<rparr>)"
    using assms by (simp add: deleteStudent_def delete_not_found)
next
  assume "sid \<notin> student_id ` set (students w) \<and> script w = CommitFails err # fs \<and>
      \<not> has_nul new_email"
  then show "updateStudentEmail s new_email w =
      (Inr (), w\<lparr>script := fs,
                 calls := calls w @ [Connect, Execute (Update new_email sid), ExitCommit],
                 out := out w @ [NoStudentWithId,
                                 if err_class err = UniqueViolation then ErrDuplicateEmail
                                 else ErrUpdate (diag err)]\<rparr>)"
    using assms
    by (simp add: updateStudentEmail_def update_not_found_commit_fails print_def)
next
  assume "sid \<notin> student_id ` set (students w) \<and> script w = CommitFails err # fs"
  then show "deleteStudent s w =
      (Inr (), w\<lparr>script := fs, calls := calls w @ [Connect, Execute (Delete sid), ExitCommit],
                 out := out w @ [NoStudentWithId, ErrDelete (diag err)]\<rparr>)"
    using assms
    by (simp add: deleteStudent_def delete_not_found_commit_fails print_def)
next
  assume a: "sid \<in> student_id ` set (students w) \<and> store_ok w \<and>
      store_ok (w\<lparr>script := tl (script w)\<rparr>)"
  define w1 where "w1 = w\<lparr>students := filter (\<lambda>r. student_id r \<noteq> sid) (students w),
      script := tl (script w),
      calls := calls w @ [Connect, Execute (Delete sid), Commit, ExitCommit],
      out := out w @ [StudentDeleted]\<rparr>"
  have first: "deleteStudent s w = (Inr (), w1)"
    using assms a by (simp add: deleteStudent_def delete_found w1_def)
  have gone: "sid \<notin> student_id ` set (students w1)"
    by (auto simp: w1_def)
  have ok: "store_ok w1"
    using a by (simp add: store_ok_def w1_def)
  have "py_int (max_str_digits w1) s = Some sid"
    using assms(1) by (simp add: w1_def)
  then have second: "deleteStudent s w1 =
      (Inr (), w1\<lparr>script := tl (script w1),
                  calls := calls w1 @ [Connect, Execute (Delete sid), ExitCommit],
                  out := out w1 @ [NoStudentWithId]\<rparr>)"
    using gone ok by (simp add: deleteStudent_def delete_not_found)
  show "let w1 = snd (deleteStudent s w); w2 = snd (deleteStudent s w1)
     in out w1 = out w @ [StudentDeleted] \<and> out w2 = out w1 @ [NoStudentWithId] \<and>
        calls w2 = calls w1 @ [Connect, Execute (Delete sid), ExitCommit] \<and>
        students w2 = students w1"
    unfolding Let_def first snd_conv second by (simp add: w1_def)
qed

theorem not_found_leaves_rows_witness:
  "updateStudentEmail ''7'' ''new@x.com'' (start [ada, bob] [CommitFails down] []) =
     (Inr (),
      (start [ada, bob] [] [])\<lparr>calls := [Connect, Execute (Update ''new@x.com'' 7), ExitCommit],
         out := [NoStudentWithId, ErrUpdate ''connection refused'']\<rparr>) \<and>
   deleteStudent ''7'' (start [ada, bob] [] []) =
     (Inr (), (start [ada, bob] [] [])\<lparr>calls := [Connect, Execute (Delete 7), ExitCommit],
                                        out := [NoStudentWithId]\<rparr>) \<and>
   out (snd (deleteStudent ''1'' (start [ada, bob] [] []))) = [StudentDeleted] \<and>
   out (snd (deleteStudent ''1'' (snd (deleteStudent ''1'' (start [ada, bob] [] []))))) =
     [StudentDeleted, NoStudentWithId] \<and>
   students (snd (deleteStudent ''1'' (snd (deleteStudent ''1'' (start [ada, bob] [] []))))) =
     [bob]"
proof -
  let ?w = "start [ada, bob] [] []"
  let ?v = "start [ada, bob] [CommitFails down] []"
  have ok: "store_ok ?w" "store_ok (?w\<lparr>script := tl (script ?w)\<rparr>)"
    by (simp_all add: store_ok_def start_def)
  have p7: "py_int (max_str_digits ?w) ''7'' = Some 7"
    and p1: "py_int (max_str_digits ?w) ''1'' = Some 1"
    and q7: "py_int (max_str_digits ?v) ''7'' = Some 7"
    by (simp_all add: start_def int_defs)
  have ids: "7 \<notin> student_id ` set (students ?w)" "1 \<in> student_id ` set (students ?w)"
    "7 \<notin> student_id ` set (students ?v)"
    by (simp_all add: start_def ada_def bob_def)
  have sel: "script ?w = []" "calls ?w = []" "out ?w = []"
    "script ?v = CommitFails down # []" "calls ?v = []" "out ?v = []"
    by (simp_all add: start_def)
  have n: "\<not> has_nul ''new@x.com''"
    by (simp add: has_nul_def)
  have st: "students (snd (deleteStudent ''1'' ?w)) = [bob]"
    using p1 ok(1) ids(2)
    by (simp add: deleteStudent_def delete_found) (simp add: start_def ada_def bob_def)
  show ?thesis
    using not_found_leaves_rows [OF q7, of "''new@x.com''" down "[]"]
      not_found_leaves_rows [OF p7, of "''new@x.com''"]
      not_found_leaves_rows [OF p1, of "''new@x.com''"] ids ok(2) st n
    by (simp add: sel Let_def) (simp add: start_def down_def diag_def)
qed

section \<open>What a successful update changes\<close>

text \<open>
  C8. Whenever \<open>updateStudentEmail\<close> prints its success message, the identifier converted
  to an integer \<open>sid\<close>, exactly one row has \<open>student_id = sid\<close>, and the table afterwards
  has the same rows in the same places with the same \<open>student_id\<close>, \<open>first_name\<close>,
  \<open>last_name\<close> and \<open>enrollment_date\<close>; the row with \<open>student_id = sid\<close> has the new
  email and every other row is unchanged in all its fields.
\<close>

theorem update_changes_email_only:
  assumes "updateStudentEmail s new_email w = (r, w')"
      and "out w' = out w @ [EmailUpdated]"
  shows "\<exists>sid. py_int (max_str_digits w) s = Some sid \<and>
           length (filter (\<lambda>x. student_id x = sid) (students w)) = 1 \<and>
           length (students w') = length (students w) \<and>
           (\<forall>i < length (students w).
              student_id (students w' ! i) = student_id (students w ! i) \<and>
              first_name (students w' ! i) = first_name (students w ! i) \<and>
              last_name (students w' ! i) = last_name (students w ! i) \<and>
              enrollment_date (students w' ! i) = enrollment_date (students w ! i) \<and>
              (student_id (students w ! i) = sid \<longrightarrow> email (students w' ! i) = new_email) \<and>
              (student_id (students w ! i) \<noteq> sid \<longrightarrow> students w' ! i = students w ! i))"
proof (cases "py_int (max_str_digits w) s")
  case None
  with assms show ?thesis
    by (auto simp: updateStudentEmail_def print_def)
next
  case (Some sid)
  obtain r1 w1 where t: "updateStudentEmail_try sid new_email w = (r1, w1)"
    by (cases "updateStudentEmail_try sid new_email w")
  have "r1 = Inr () \<and> w1 = w'"
  proof (cases r1)
    case (Inl x)
    then have "(\<exists>err. x = PgError err) \<or> x = ValueError"
      using t update_try_raises by blast
    moreover have "out w1 = out w \<or> out w1 = out w @ [NoStudentWithId]"
      using t Inl update_try_out by blast
    ultimately show ?thesis
      using assms Some t Inl
      by (auto simp: updateStudentEmail_def print_def split: if_splits)
  next
    case (Inr u)
    with assms Some t show ?thesis
      by (simp add: updateStudentEmail_def)
  qed
  with t assms(2) have
    m: "students w' = map (\<lambda>x. if student_id x = sid then x\<lparr>email := new_email\<rparr> else x) (students w)"
    and one: "length (filter (\<lambda>x. student_id x = sid) (students w)) = 1"
    using update_success [of sid new_email w r1 w1] by auto
  from m have "\<forall>i < length (students w).
      student_id (students w' ! i) = student_id (students w ! i) \<and>
      first_name (students w' ! i) = first_name (students w ! i) \<and>
      last_name (students w' ! i) = last_name (students w ! i) \<and>
      enrollment_date (students w' ! i) = enrollment_date (students w ! i) \<and>
      (student_id (students w ! i) = sid \<longrightarrow> email (students w' ! i) = new_email) \<and>
      (student_id (students w ! i) \<noteq> sid \<longrightarrow> students w' ! i = students w ! i)"
    by simp
  with Some one m show ?thesis
    by auto
qed

theorem update_changes_email_only_witness:
  "let w = start [ada, bob] [] []; w' = snd (updateStudentEmail ''2'' ''bob2@x.com'' w)
   in out w' = out w @ [EmailUpdated] \<and>
      students w' = [ada, bob\<lparr>email := ''bob2@x.com''\<rparr>] \<and>
      (\<exists>sid. py_int (max_str_digits w) ''2'' = Some sid \<and>
         length (filter (\<lambda>x. student_id x = sid) (students w)) = 1 \<and>
         length (students w') = length (students w) \<and>
         (\<forall>i < length (students w).
            student_id (students w' ! i) = student_id (students w ! i) \<and>
            first_name (students w' ! i) = first_name (students w ! i) \<and>
            last_name (students w' ! i) = last_name (students w ! i) \<and>
            enrollment_date (students w' ! i) = enrollment_date (students w ! i) \<and>
            (student_id (students w ! i) = sid \<longrightarrow> email (students w' ! i) = ''bob2@x.com'') \<and>
            (student_id (students w ! i) \<noteq> sid \<longrightarrow> students w' ! i = students w ! i)))"
proof -
  let ?w = "start [ada, bob] [] []"
  let ?w' = "snd (updateStudentEmail ''2'' ''bob2@x.com'' ?w)"
  have run: "updateStudentEmail ''2'' ''bob2@x.com'' ?w =
      (Inr (), ?w\<lparr>students := [ada, bob\<lparr>email := ''bob2@x.com''\<rparr>],
                  calls := [Connect, Execute (Update ''bob2@x.com'' 2), Commit, ExitCommit],
                  out := [EmailUpdated]\<rparr>)"
    by (simp add: run_defs)
  have o: "out ?w' = out ?w @ [EmailUpdated]"
    by (simp add: run) (simp add: start_def)
  have st: "students ?w' = [ada, bob\<lparr>email := ''bob2@x.com''\<rparr>]"
    by (simp add: run)
  show ?thesis
    unfolding Let_def
    using update_changes_email_only [OF surjective_pairing o] o st by blast
qed

section \<open>Creating a record\<close>

lemma calls_addStudent_try:
  "addStudent_try f l e d w = (r, w') \<Longrightarrow> \<exists>cs. calls w' = calls w @ Connect # cs"
  by (auto simp: addStudent_try_def split: prod.splits sum.splits option.splits
      dest!: calls_connect_db calls_execute calls_commit calls_exit_conn)

lemma calls_addStudent:
  "strptime d \<noteq> None \<Longrightarrow> \<exists>cs. calls (snd (addStudent f l e d w)) = calls w @ Connect # cs"
  by (auto simp: addStudent_def split: prod.splits sum.splits exn.splits
      dest!: calls_addStudent_try)

text \<open>
  C3. \<open>addStudent\<close> checks the date first. When \<open>strptime\<close> refuses it, the operation
  prints the invalid-date message and returns, and the world differs from the one
  before only by that message: no connection was opened, no statement was run, no row
  was added. Whenever a call was made on the driver, the date had passed the check.
  In every run, either the success message with the new identifier was printed and the
  table is the old one followed by one row with that identifier and the submitted
  fields, or no success message was printed and the table is the old one.
\<close>

theorem add_validates_before_store:
  "(strptime date_str = None \<longrightarrow>
      addStudent first last' email' date_str w = (Inr (), w\<lparr>out := out w @ [ErrInvalidDate]\<rparr>)) \<and>
   (calls (snd (addStudent first last' email' date_str w)) \<noteq> calls w \<longrightarrow>
      strptime date_str \<noteq> None) \<and>
   ((\<exists>n. out (snd (addStudent first last' email' date_str w)) = out w @ [StudentAdded n] \<and>
         students (snd (addStudent first last' email' date_str w)) =
           students w @ [\<lparr>student_id = n, first_name = first, last_name = last',
                           email = email', enrollment_date = date_str\<rparr>]) \<or>
    ((\<forall>n. out (snd (addStudent first last' email' date_str w)) \<noteq> out w @ [StudentAdded n]) \<and>
     students (snd (addStudent first last' email' date_str w)) = students w))"
proof -
  have rej: "strptime date_str = None \<Longrightarrow>
      addStudent first last' email' date_str w = (Inr (), w\<lparr>out := out w @ [ErrInvalidDate]\<rparr>)"
    by (simp add: addStudent_def print_def)
  obtain r1 w1 where t: "addStudent_try first last' email' date_str w = (r1, w1)"
    by (cases "addStudent_try first last' email' date_str w")
  have rows: "(\<exists>n. out (snd (addStudent first last' email' date_str w)) = out w @ [StudentAdded n] \<and>
         students (snd (addStudent first last' email' date_str w)) =
           students w @ [\<lparr>student_id = n, first_name = first, last_name = last',
                           email = email', enrollment_date = date_str\<rparr>]) \<or>
    ((\<forall>n. out (snd (addStudent first last' email' date_str w)) \<noteq> out w @ [StudentAdded n]) \<and>
     students (snd (addStudent first last' email' date_str w)) = students w)"
  proof (cases "strptime date_str")
    case None
    then show ?thesis by (simp add: rej)
  next
    case (Some ymd)
    from add_try_students [OF t] show ?thesis
    proof
      assume "\<exists>n. r1 = Inr () \<and> out w1 = out w @ [StudentAdded n] \<and>
          students w1 = students w @ [\<lparr>student_id = n, first_name = first, last_name = last',
                                        email = email', enrollment_date = date_str\<rparr>]"
      then show ?thesis
        using Some t by (auto simp: addStudent_def)
    next
      assume "(\<exists>x. r1 = Inl x) \<and> out w1 = out w \<and> students w1 = students w"
      then show ?thesis
        using Some t by (auto simp: addStudent_def print_def split: if_splits exn.splits)
    qed
  qed
  from rej have "calls (snd (addStudent first last' email' date_str w)) \<noteq> calls w \<Longrightarrow>
      strptime date_str \<noteq> None"
    by (cases "strptime date_str") auto
  with rej rows show ?thesis
    by blast
qed

theorem add_validates_before_store_witness:
  "strptime ''2023-13-01'' = None \<and>
   addStudent ''Cy'' ''Cole'' ''cy@x.com'' ''2023-13-01'' (start [ada] [] []) =
     (Inr (), (start [ada] [] [])\<lparr>out := [ErrInvalidDate]\<rparr>) \<and>
   out (snd (addStudent ''Cy'' ''Cole'' ''cy@x.com'' ''2023-09-01'' (start [ada] [] []))) =
     [StudentAdded 3] \<and>
   students (snd (addStudent ''Cy'' ''Cole'' ''cy@x.com'' ''2023-09-01'' (start [ada] [] []))) =
     [ada, \<lparr>student_id = 3, first_name = ''Cy'', last_name = ''Cole'', email = ''cy@x.com'',
            enrollment_date = ''2023-09-01''\<rparr>]"
proof -
  let ?w = "start [ada] [] []"
  have bad: "strptime ''2023-13-01'' = None"
    by (simp add: run_defs)
  have o: "out ?w = []" and st: "students ?w = [ada]"
    by (simp_all add: start_def)
  have good: "out (snd (addStudent ''Cy'' ''Cole'' ''cy@x.com'' ''2023-09-01'' ?w)) =
      out ?w @ [StudentAdded 3]"
    by (simp add: run_defs)
  show ?thesis
    using add_validates_before_store [of "''2023-13-01''" "''Cy''" "''Cole''" "''cy@x.com''" ?w]
      add_validates_before_store [of "''2023-09-01''" "''Cy''" "''Cole''" "''cy@x.com''" ?w]
      bad good
    by (auto simp: o st)
qed



section \<open>Identifiers that are not plain digit strings\<close>

lemma digit_not_special:
  assumes "is_digit c"
  shows "c \<noteq> CHR ''_''" and "c \<noteq> CHR ''+''" and "c \<noteq> CHR ''-''" and "\<not> int_space c"
  using assms by (auto simp: is_digit_def int_space_def Let_def)

lemma long_digits_all:
  "list_all is_digit s \<Longrightarrow> prev \<noteq> Some (CHR ''_'') \<Longrightarrow>
   long_digits prev s n v = Some ([], n + length s, foldl (\<lambda>v c. 10 * v + digit_val c) v s)"
proof (induction s arbitrary: prev n v)
  case Nil
  then show ?case by simp
next
  case (Cons c cs)
  then have "is_digit c" and "list_all is_digit cs"
    by simp_all
  moreover from \<open>is_digit c\<close> have "Some c \<noteq> Some (CHR ''_'')"
    by (simp add: digit_not_special)
  ultimately show ?case
    using Cons.IH [of "Some c" "Suc n" "10 * v + digit_val c"]
    by (simp add: digit_not_special)
qed

lemma py_int_digits:
  assumes "s \<noteq> []" and "list_all is_digit s"
    and "length s \<le> 640 \<or> lim = 0 \<or> length s \<le> lim"
  shows "py_int lim s = Some (int (decimal s))"
proof -
  obtain c cs where s: "s = c # cs"
    using assms(1) by (cases s) auto
  with assms(2) have c: "is_digit c"
    by simp
  have "long_digits None s 0 0 = Some ([], length s, decimal s)"
    using long_digits_all [OF assms(2), of None 0 0] by (simp add: decimal_def)
  moreover have "dropWhile int_space s = s"
    using c s by (simp add: digit_not_special)
  ultimately show ?thesis
    using c s assms(3) unfolding py_int_def Let_def
    by (auto simp: digit_not_special)
qed

lemma calls_snd_exit_conn [simp]: "calls (snd (exit_conn c w)) = calls w @ [ExitCommit]"
  by (cases "exit_conn c w") (auto dest: calls_exit_conn)

lemma execute_logged_update:
  assumes "store_ok w"
  shows "\<exists>cs. calls (snd (updateStudentEmail_try sid e w)) =
           calls w @ Connect # Execute (Update e sid) # cs"
proof -
  obtain c w1 where c: "connect_db w = (Inr c, w1)"
    using assms by (auto simp: connect_db_def store_ok_def Let_def split: list.splits)
  then have c1: "calls w1 = calls w @ [Connect]"
    by (rule calls_connect_db)
  obtain r2 w2 where e: "execute (Update e sid) c w1 = (r2, w2)"
    by (cases "execute (Update e sid) c w1")
  then have c2: "calls w2 = calls w1 @ [Execute (Update e sid)]"
    by (rule calls_execute)
  show ?thesis
    using c e c1 c2
    by (auto simp: updateStudentEmail_try_def split: sum.splits prod.splits
        dest!: calls_commit calls_exit_conn)
qed

lemma execute_logged_delete:
  assumes "store_ok w"
  shows "\<exists>cs. calls (snd (deleteStudent_try sid w)) = calls w @ Connect # Execute (Delete sid) # cs"
proof -
  obtain c w1 where c: "connect_db w = (Inr c, w1)"
    using assms by (auto simp: connect_db_def store_ok_def Let_def split: list.splits)
  then have c1: "calls w1 = calls w @ [Connect]"
    by (rule calls_connect_db)
  obtain r2 w2 where e: "execute (Delete sid) c w1 = (r2, w2)"
    by (cases "execute (Delete sid) c w1")
  then have c2: "calls w2 = calls w1 @ [Execute (Delete sid)]"
    by (rule calls_execute)
  show ?thesis
    using c e c1 c2
    by (auto simp: deleteStudent_try_def split: sum.splits prod.splits
        dest!: calls_commit calls_exit_conn)
qed

lemma sent_as_integer:
  assumes "py_int (max_str_digits w) s = Some sid" and "store_ok w"
  shows "(\<exists>cs. calls (snd (updateStudentEmail s e w)) =
            calls w @ Connect # Execute (Update e sid) # cs) \<and>
         (\<exists>cs. calls (snd (deleteStudent s w)) = calls w @ Connect # Execute (Delete sid) # cs)"
  using assms execute_logged_update [OF assms(2), of sid e] execute_logged_delete [OF assms(2), of sid]
  by (auto simp: updateStudentEmail_def deleteStudent_def
      split: prod.splits sum.splits exn.splits)

text \<open>
  C10. The conversion of the identifier accepts more than strings of digits. Every
  non-empty string of digits converts to the number it denotes (as long as the
  interpreter's limit on the number of digits allows it), and so do \<open>-5\<close>, \<open>+42\<close> and
  \<open>1_000\<close>, which are not strings of digits: they give \<open>-5\<close>, \<open>42\<close> and \<open>1000\<close>. Whatever
  integer the conversion gives is the parameter of the statement that
  \<open>updateStudentEmail\<close> and \<open>deleteStudent\<close> then execute, the store being reachable.
\<close>

theorem signed_and_grouped_ids_accepted:
  "(s \<noteq> [] \<and> list_all is_digit s \<and> (length s \<le> 640 \<or> lim = 0 \<or> length s \<le> lim) \<longrightarrow>
      py_int lim s = Some (int (decimal s))) \<and>
   py_int lim ''-5'' = Some (- 5) \<and> \<not> list_all is_digit ''-5'' \<and>
   py_int lim ''+42'' = Some 42 \<and> \<not> list_all is_digit ''+42'' \<and>
   py_int lim ''1_000'' = Some 1000 \<and> \<not> list_all is_digit ''1_000'' \<and>
   (py_int (max_str_digits w) t = Some sid \<and> store_ok w \<longrightarrow>
      (\<exists>cs. calls (snd (updateStudentEmail t new_email w)) =
          calls w @ Connect # Execute (Update new_email sid) # cs) \<and>
      (\<exists>cs. calls (snd (deleteStudent t w)) = calls w @ Connect # Execute (Delete sid) # cs))"
proof -
  have "py_int lim ''-5'' = Some (- 5)" "py_int lim ''+42'' = Some 42"
    "py_int lim ''1_000'' = Some 1000"
    by (simp_all add: int_defs)
  moreover have "\<not> list_all is_digit ''-5''" "\<not> list_all is_digit ''+42''"
    "\<not> list_all is_digit ''1_000''"
    by (simp_all add: is_digit_def)
  ultimately show ?thesis
    using py_int_digits [of s lim] sent_as_integer [of w t sid new_email]
    by blast
qed

theorem signed_and_grouped_ids_accepted_witness:
  "py_int 4300 ''007'' = Some 7 \<and>
   (\<exists>cs. calls (snd (deleteStudent ''-5'' (start [ada] [] []))) =
      Connect # Execute (Delete (- 5)) # cs) \<and>
   (\<exists>cs. calls (snd (updateStudentEmail ''1_000'' ''a@x.com'' (start [ada] [] []))) =
      Connect # Execute (Update ''a@x.com'' 1000) # cs)"
proof -
  let ?w = "start [ada] [] []"
  have ok: "store_ok ?w" and c: "calls ?w = []" and m: "max_str_digits ?w = 4300"
    by (simp_all add: store_ok_def start_def)
  have d: "''007'' \<noteq> [] \<and> list_all is_digit ''007'' \<and> length ''007'' \<le> 640"
    by (simp add: is_digit_def)
  have v: "decimal ''007'' = 7"
    by (simp add: decimal_def digit_val_def)
  show ?thesis
    using signed_and_grouped_ids_accepted [of "''007''" 4300 ?w "''-5''" "- 5" "''a@x.com''"]
      signed_and_grouped_ids_accepted [of "''007''" 4300 ?w "''1_000''" 1000 "''a@x.com''"]
      ok d
    by (simp add: c m v)
qed

section \<open>The menu loop\<close>

lemma then_loop_returns: "fst r = Inr u \<Longrightarrow> then_loop r = (Inr AwaitingChoice, snd r)"
  by (cases r) (auto simp: then_loop_def)

text \<open>
  C7 fails on the code. The exceptions of the store and the failed checks of date and
  identifier are handled inside the operations, but the driver raises the built-in
  \<open>ValueError\<close> for a string parameter that holds the character NUL, and no handler
  around \<open>cur.execute\<close> takes it: \<open>except ValueError\<close> guards only the conversions
  before the connection is opened. For such a first name \<open>addStudent\<close> ends with the
  exception, having printed nothing, and so does \<open>updateStudentEmail\<close> for such an
  email; \<open>menu\<close> has no handler either, so the loop ends with the exception while the
  line \<open>0\<close> is still unread, and with it the program started by \<open>main\<close>.
\<close>

theorem nul_field_ends_menu:
  "addStudent [CHR 0x00] ''Lovelace'' ''ada@x.com'' ''1843-12-10'' (start [] [] []) =
     (Inl ValueError,
      (start [] [] [])\<lparr>calls := [Connect,
          Execute (Insert [CHR 0x00] ''Lovelace'' ''ada@x.com'' ''1843-12-10'')]\<rparr>) \<and>
   updateStudentEmail ''1'' [CHR 0x00] (start [ada] [] []) =
     (Inl ValueError,
      (start [ada] [] [])\<lparr>calls := [Connect, Execute (Update [CHR 0x00] 1)]\<rparr>) \<and>
   menu (start [] [] [''2'', [CHR 0x00], ''Lovelace'', ''ada@x.com'', ''1843-12-10'', ''0'']) =
     (Inl ValueError,
      (start [] [] [''0''])\<lparr>calls := [Connect,
          Execute (Insert [CHR 0x00] ''Lovelace'' ''ada@x.com'' ''1843-12-10'')],
        out := [MenuBanner, Prompt ''Choose an option: '', Prompt ''First name: '',
                Prompt ''Last name: '', Prompt ''Email: '',
                Prompt ''Enrollment date (YYYY-MM-DD): '']\<rparr>) \<and>
   main (start [] [] [''2'', [CHR 0x00], ''Lovelace'', ''ada@x.com'', ''1843-12-10'', ''0'']) =
     (Inl ValueError,
      (start [] [] [''0''])\<lparr>calls := [Connect, ExitCommit, Connect,
          Execute (Insert [CHR 0x00] ''Lovelace'' ''ada@x.com'' ''1843-12-10'')],
        out := [MenuBanner, Prompt ''Choose an option: '', Prompt ''First name: '',
                Prompt ''Last name: '', Prompt ''Email: '',
                Prompt ''Enrollment date (YYYY-MM-DD): '']\<rparr>)"
  by (simp add: menu.simps run_defs)

lemma menu_body_1:
  assumes "stdin w = line # rest" and "strip line = ''1''"
  shows "menu_body w =
     (Inr AwaitingChoice,
      snd (getAllStudents
        (w\<lparr>out := out w @ [MenuBanner, Prompt ''Choose an option: ''], stdin := rest\<rparr>)))"
  using assms
  by (simp add: menu_body_def input_def print_def then_loop_returns [OF getAllStudents_returns])

lemma menu_body_2:
  assumes "stdin w = line # l1 # l2 # l3 # l4 # rest" and "strip line = ''2''"
    and "addStudent (strip l1) (strip l2) (strip l3) (strip l4)
        (w\<lparr>out := out w @ [MenuBanner, Prompt ''Choose an option: '', Prompt ''First name: '',
                            Prompt ''Last name: '', Prompt ''Email: '',
                            Prompt ''Enrollment date (YYYY-MM-DD): ''],
            stdin := rest\<rparr>) = (Inr (), w')"
  shows "menu_body w = (Inr AwaitingChoice, w')"
  using assms by (simp add: menu_body_def input_def print_def then_loop_def)

lemma menu_body_3:
  assumes "stdin w = line # l1 # l2 # rest" and "strip line = ''3''"
    and "updateStudentEmail (strip l1) (strip l2)
        (w\<lparr>out := out w @ [MenuBanner, Prompt ''Choose an option: '', Prompt ''Student ID: '',
                            Prompt ''New email: ''],
            stdin := rest\<rparr>) = (Inr (), w')"
  shows "menu_body w = (Inr AwaitingChoice, w')"
  using assms by (simp add: menu_body_def input_def print_def then_loop_def)

lemma menu_body_4:
  assumes "stdin w = line # l1 # rest" and "strip line = ''4''"
  shows "menu_body w =
     (Inr AwaitingChoice,
      snd (deleteStudent (strip l1)
        (w\<lparr>out := out w @ [MenuBanner, Prompt ''Choose an option: '',
                            Prompt ''Student ID to delete: ''],
            stdin := rest\<rparr>)))"
  using assms
  by (simp add: menu_body_def input_def print_def then_loop_returns [OF deleteStudent_returns])

lemma menu_body_0:
  assumes "stdin w = line # rest" and "strip line = ''0''"
  shows "menu_body w =
     (Inr Exited,
      w\<lparr>out := out w @ [MenuBanner, Prompt ''Choose an option: '', Goodbye], stdin := rest\<rparr>)"
  using assms by (simp add: menu_body_def input_def print_def)

lemma menu_body_other:
  assumes "stdin w = line # rest"
    and "strip line \<notin> {''1'', ''2'', ''3'', ''4'', ''0''}"
  shows "menu_body w =
     (Inr AwaitingChoice,
      w\<lparr>out := out w @ [MenuBanner, Prompt ''Choose an option: '', InvalidOption],
        stdin := rest\<rparr>)"
  using assms by (simp add: menu_body_def input_def print_def)

lemma menu_round:
  "menu_body w = (Inr AwaitingChoice, w') \<Longrightarrow> menu w = menu w'"
  "menu_body w = (Inr Exited, w') \<Longrightarrow> menu w = (Inr (), w')"
  by (simp_all add: menu.simps [of w])

text \<open>
  C6, as stated, fails in two ways. The loop does not dispatch on the line as typed:
  the line \<open> 1 \<close>, with a blank on either side, is none of \<open>1\<close> to \<open>4\<close> and \<open>0\<close>, yet
  the round runs \<open>getAllStudents\<close> and prints no invalid-option notice. And an input
  of \<open>1\<close> to \<open>4\<close> does not always run its operation: after the input \<open>4\<close>, when no
  line answers the prompt for the identifier, \<open>deleteStudent\<close> is not called and the
  round ends with \<open>EOFError\<close>, in neither of the two states.
\<close>

theorem raw_choice_counterexample:
  "'' 1 '' \<notin> {''1'', ''2'', ''3'', ''4'', ''0''} \<and>
   menu_body (start [] [] ['' 1 '']) =
     (Inr AwaitingChoice,
      (start [] [] [])\<lparr>calls := [Connect, Execute Select, ExitCommit],
         out := [MenuBanner, Prompt ''Choose an option: '', NoStudentsFound]\<rparr>) \<and>
   menu_body (start [ada] [] [''4'']) =
     (Inl EOFError,
      (start [ada] [] [])\<lparr>out := [MenuBanner, Prompt ''Choose an option: '',
                                    Prompt ''Student ID to delete: '']\<rparr>)"
  by (simp add: run_defs)

text \<open>
  C6, amended. One round of the loop reads a line and takes its stripped text as the
  choice. For the choices \<open>1\<close> to \<open>4\<close> it prompts for the fields of the operation
  and, each prompt being answered by a line, calls the operation with the stripped
  answers, whatever they are; when the operation has returned, the loop is at its head
  again (\<open>getAllStudents\<close> and \<open>deleteStudent\<close> always return). For the choice \<open>0\<close> it
  prints the farewell and leaves the loop; for any other choice it prints the
  invalid-option notice and is at the head of the loop again. From the head of the
  loop \<open>menu\<close> runs the next round, and once the loop is left \<open>menu\<close> returns.
\<close>

theorem menu_two_states:
  "(stdin w = line # rest \<and> strip line = ''1'' \<longrightarrow>
      menu_body w =
        (Inr AwaitingChoice,
         snd (getAllStudents
           (w\<lparr>out := out w @ [MenuBanner, Prompt ''Choose an option: ''], stdin := rest\<rparr>)))) \<and>
   (stdin w = line # l1 # l2 # l3 # l4 # rest \<and> strip line = ''2'' \<and>
    addStudent (strip l1) (strip l2) (strip l3) (strip l4)
      (w\<lparr>out := out w @ [MenuBanner, Prompt ''Choose an option: '', Prompt ''First name: '',
                          Prompt ''Last name: '', Prompt ''Email: '',
                          Prompt ''Enrollment date (YYYY-MM-DD): ''],
          stdin := rest\<rparr>) = (Inr (), w2) \<longrightarrow>
      menu_body w = (Inr AwaitingChoice, w2)) \<and>
   (stdin w = line # l1 # l2 # rest \<and> strip line = ''3'' \<and>
    updateStudentEmail (strip l1) (strip l2)
      (w\<lparr>out := out w @ [MenuBanner, Prompt ''Choose an option: '', Prompt ''Student ID: '',
                          Prompt ''New email: ''],
          stdin := rest\<rparr>) = (Inr (), w3) \<longrightarrow>
      menu_body w = (Inr AwaitingChoice, w3)) \<and>
   (stdin w = line # l1 # rest \<and> strip line = ''4'' \<longrightarrow>
      menu_body w =
        (Inr AwaitingChoice,
         snd (deleteStudent (strip l1)
           (w\<lparr>out := out w @ [MenuBanner, Prompt ''Choose an option: '',
                               Prompt ''Student ID to delete: ''],
               stdin := rest\<rparr>)))) \<and>
   (stdin w = line # rest \<and> strip line = ''0'' \<longrightarrow>
      menu_body w =
        (Inr Exited,
         w\<lparr>out := out w @ [MenuBanner, Prompt ''Choose an option: '', Goodbye],
           stdin := rest\<rparr>)) \<and>
   (stdin w = line # rest \<and> strip line \<notin> {''1'', ''2'', ''3'', ''4'', ''0''} \<longrightarrow>
      menu_body w =
        (Inr AwaitingChoice,
         w\<lparr>out := out w @ [MenuBanner, Prompt ''Choose an option: '', InvalidOption],
           stdin := rest\<rparr>)) \<and>
   (menu_body w = (Inr AwaitingChoice, w') \<longrightarrow> menu w = menu w') \<and>
   (menu_body w = (Inr Exited, w') \<longrightarrow> menu w = (Inr (), w'))"
  using menu_body_1 [of w line rest] menu_body_2 [of w line l1 l2 l3 l4 rest w2]
    menu_body_3 [of w line l1 l2 rest w3] menu_body_4 [of w line l1 rest]
    menu_body_0 [of w line rest] menu_body_other [of w line rest] menu_round [of w w']
  by blast

theorem menu_two_states_witness:
  "menu_body (start [ada] [] [''5'', ''0'']) =
     (Inr AwaitingChoice,
      (start [ada] [] [''0''])\<lparr>out := [MenuBanner, Prompt ''Choose an option: '', InvalidOption]\<rparr>) \<and>
   menu_body (start [ada] [] [''0'']) =
     (Inr Exited,
      (start [ada] [] [])\<lparr>out := [MenuBanner, Prompt ''Choose an option: '', Goodbye]\<rparr>) \<and>
   menu (start [ada] [] [''0'']) =
     (Inr (), (start [ada] [] [])\<lparr>out := [MenuBanner, Prompt ''Choose an option: '', Goodbye]\<rparr>) \<and>
   menu_body (start [ada] [] [''4'', ''x'', ''0'']) =
     (Inr AwaitingChoice,
      (start [ada] [] [''0''])\<lparr>out := [MenuBanner, Prompt ''Choose an option: '',
                                         Prompt ''Student ID to delete: '', ErrInvalidId]\<rparr>) \<and>
   menu_body (start [ada] [] [''3'', ''x'', ''a@x.com'', ''0'']) =
     (Inr AwaitingChoice,
      (start [ada] [] [''0''])\<lparr>out := [MenuBanner, Prompt ''Choose an option: '',
                                         Prompt ''Student ID: '', Prompt ''New email: '',
                                         ErrInvalidId]\<rparr>)"
proof -
  let ?a = "start [ada] [] [''5'', ''0'']"
  let ?b = "start [ada] [] [''0'']"
  let ?c = "start [ada] [] [''4'', ''x'', ''0'']"
  let ?e = "start [ada] [] [''3'', ''x'', ''a@x.com'', ''0'']"
  have i: "stdin ?a = ''5'' # [''0'']" "stdin ?b = ''0'' # []" "stdin ?c = ''4'' # ''x'' # [''0'']"
    "stdin ?e = ''3'' # ''x'' # ''a@x.com'' # [''0'']"
    by (simp_all add: start_def)
  have s: "strip ''5'' \<notin> {''1'', ''2'', ''3'', ''4'', ''0''}" "strip ''0'' = ''0''"
    "strip ''4'' = ''4''" "strip ''x'' = ''x''" "strip ''3'' = ''3''"
    "strip ''a@x.com'' = ''a@x.com''"
    by (simp_all add: strip_def is_space_def)
  have d: "snd (deleteStudent ''x''
      (?c\<lparr>out := out ?c @ [MenuBanner, Prompt ''Choose an option: '',
                              Prompt ''Student ID to delete: ''],
           stdin := [''0'']\<rparr>)) =
      (start [ada] [] [''0''])\<lparr>out := [MenuBanner, Prompt ''Choose an option: '',
                                         Prompt ''Student ID to delete: '', ErrInvalidId]\<rparr>"
    by (simp add: deleteStudent_def print_def start_def int_defs)
  have u: "updateStudentEmail (strip ''x'') (strip ''a@x.com'')
      (?e\<lparr>out := out ?e @ [MenuBanner, Prompt ''Choose an option: '', Prompt ''Student ID: '',
                              Prompt ''New email: ''],
           stdin := [''0'']\<rparr>) =
      (Inr (), (start [ada] [] [''0''])\<lparr>out := [MenuBanner, Prompt ''Choose an option: '',
                                         Prompt ''Student ID: '', Prompt ''New email: '',
                                         ErrInvalidId]\<rparr>)"
    by (simp add: s updateStudentEmail_def print_def start_def int_defs)
  have A: "menu_body ?a =
      (Inr AwaitingChoice,
       ?a\<lparr>out := out ?a @ [MenuBanner, Prompt ''Choose an option: '', InvalidOption],
          stdin := [''0'']\<rparr>)"
    using menu_two_states [of ?a "''5''" "[''0'']"] i(1) s(1) by blast
  have B: "menu_body ?b =
      (Inr Exited,
       ?b\<lparr>out := out ?b @ [MenuBanner, Prompt ''Choose an option: '', Goodbye], stdin := []\<rparr>)"
    using menu_two_states [of ?b "''0''" "[]"] i(2) s(2) by blast
  have B': "menu ?b =
      (Inr (),
       ?b\<lparr>out := out ?b @ [MenuBanner, Prompt ''Choose an option: '', Goodbye], stdin := []\<rparr>)"
    using menu_two_states [of ?b _ _ _ _ _ _ _ _
        "?b\<lparr>out := out ?b @ [MenuBanner, Prompt ''Choose an option: '', Goodbye], stdin := []\<rparr>"] B
    by blast
  have C: "menu_body ?c =
      (Inr AwaitingChoice,
       snd (deleteStudent (strip ''x'')
         (?c\<lparr>out := out ?c @ [MenuBanner, Prompt ''Choose an option: '',
                                 Prompt ''Student ID to delete: ''],
              stdin := [''0'']\<rparr>)))"
    using menu_two_states [of ?c "''4''" "[''0'']" "''x''"] i(3) s(3) by blast
  have E: "menu_body ?e =
      (Inr AwaitingChoice,
       (start [ada] [] [''0''])\<lparr>out := [MenuBanner, Prompt ''Choose an option: '',
                                         Prompt ''Student ID: '', Prompt ''New email: '',
                                         ErrInvalidId]\<rparr>)"
    using menu_two_states [of ?e "''3''" "[''0'']" "''x''" "''a@x.com''" _ _ _
        "(start [ada] [] [''0''])\<lparr>out := [MenuBanner, Prompt ''Choose an option: '',
                                         Prompt ''Student ID: '', Prompt ''New email: '',
                                         ErrInvalidId]\<rparr>"] i(4) s(5) u
    by blast
  show ?thesis
    using A B B' C E d by (simp add: s(4)) (simp add: start_def)
qed

section \<open>Stripping what the operator types\<close>

lemma strip_parts:
  "s = takeWhile is_space s @ strip s @
       rev (takeWhile is_space (rev (dropWhile is_space s)))"
proof -
  let ?t = "dropWhile is_space s"
  have "rev (takeWhile is_space (rev ?t) @ dropWhile is_space (rev ?t)) = rev (rev ?t)"
    by (simp only: takeWhile_dropWhile_id)
  then have "strip s @ rev (takeWhile is_space (rev ?t)) = ?t"
    by (simp only: rev_append rev_rev_ident strip_def)
  then show ?thesis
    by (simp only: takeWhile_dropWhile_id)
qed

lemma strip_ends:
  assumes "strip s \<noteq> []"
  shows "\<not> is_space (hd (strip s))" and "\<not> is_space (last (strip s))"
proof -
  let ?t = "dropWhile is_space s"
  let ?u = "dropWhile is_space (rev ?t)"
  from assms have u: "?u \<noteq> []"
    by (simp add: strip_def)
  have t: "?t \<noteq> []"
  proof
    assume e: "?t = []"
    have "?u = []" unfolding e by simp
    with u show False by simp
  qed
  have "last (strip s) = hd ?u"
    using u by (simp add: strip_def last_rev)
  then show "\<not> is_space (last (strip s))"
    using u hd_dropWhile [of is_space "rev ?t"] by simp
  have "?t = strip s @ rev (takeWhile is_space (rev ?t))"
    using strip_parts [of s] by (metis append_eq_append_conv takeWhile_dropWhile_id)
  then have "hd ?t = hd (strip s)"
    using assms by (metis hd_append2)
  then show "\<not> is_space (hd (strip s))"
    using t hd_dropWhile [of is_space s] by simp
qed

lemma strip_clean:
  assumes "s = [] \<or> (\<not> is_space (hd s) \<and> \<not> is_space (last s))"
  shows "strip s = s"
proof (cases s)
  case Nil
  then show ?thesis by (simp add: strip_def)
next
  case (Cons c cs)
  with assms have h: "\<not> is_space (hd s)" and l: "\<not> is_space (last s)"
    by auto
  from h Cons have "dropWhile is_space s = s"
    by simp
  moreover have "dropWhile is_space (rev s) = rev s"
  proof -
    from Cons obtain a as where r: "rev s = a # as"
      by (cases "rev s") auto
    then have "a = last s"
      using Cons by (metis hd_rev list.sel(1))
    with l have "dropWhile is_space (a # as) = a # as"
      by simp
    then show ?thesis
      by (simp only: r)
  qed
  ultimately show ?thesis
    by (simp add: strip_def)
qed

lemma strip_strip [simp]: "strip (strip s) = strip s"
  using strip_clean [of "strip s"] strip_ends [of s] by blast







section \<open>The date check\<close>

lemma date_examples:
  "strptime ''2023-13-01'' = None" "strptime ''09/01/2023'' = None" "strptime '''' = None"
  "strptime ''2023-09-01'' = Some (2023, 9, 1)"
  by (simp_all add: run_defs)

text \<open>
  C2 fails on the code. The docstring of \<open>addStudent\<close>, the comment on the check and the
  message printed for a refused date all name the format \<open>YYYY-MM-DD\<close>, but the check
  is \<open>strptime\<close>, whose month and day also match a single digit: the string
  \<open>2023-9-1\<close> does not have the shape \<open>YYYY-MM-DD\<close>, yet it passes the check,
  \<open>addStudent\<close> sends the insert with that string to the store, commits, and prints the
  success message.
\<close>

theorem unpadded_date_accepted:
  "\<not> strict_date ''2023-9-1'' \<and>
   strptime ''2023-9-1'' = Some (2023, 9, 1) \<and>
   fst (addStudent ''Ada'' ''Lovelace'' ''ada@x.com'' ''2023-9-1'' (start [] [] [])) = Inr () \<and>
   calls (snd (addStudent ''Ada'' ''Lovelace'' ''ada@x.com'' ''2023-9-1'' (start [] [] []))) =
     [Connect, Execute (Insert ''Ada'' ''Lovelace'' ''ada@x.com'' ''2023-9-1''), Commit,
      ExitCommit] \<and>
   out (snd (addStudent ''Ada'' ''Lovelace'' ''ada@x.com'' ''2023-9-1'' (start [] [] []))) =
     [StudentAdded 3]"
  by (simp add: strict_date_def run_defs)

end
